theory Spec2Isabelle
  imports Complex_Main "HOL-Library.Word" "HOL-Library.Sublist"
begin

unbundle bit_operations_syntax

chapter \<open>The QBTM runtime: values, Gaussian rationals, matrices, circuits, containers\<close>

section \<open>Values and their canonical encoding (runtime/value.go)\<close>

text \<open>
  A Go \<open>byte\<close> is an 8-bit word, a \<open>[]byte\<close> a list of them, a Go \<open>string\<close> a HOL
  \<open>string\<close> (both are sequences of 8-bit characters), and \<open>[]byte(s)\<close> is
  \<open>string_bytes s\<close>. The interface \<open>Value\<close> with its eight implementations is a datatype;
  \<open>Int\<close> and \<open>Nil\<close> are written \<open>IntV\<close> and \<open>NilV\<close>. A \<open>*big.Int\<close> is an \<open>int\<close> and a
  \<open>*big.Rat\<close> a \<open>rat\<close>: the values are those the constructors \<open>MakeInt\<close>, \<open>MakeBigInt\<close>,
  \<open>MakeRat\<close>, \<open>MakeBigRat\<close> build, whose pointer is never nil, and math/big keeps every
  rational in lowest terms with a positive denominator, as \<open>quotient_of\<close> does.
\<close>

type_synonym byte = "8 word"

datatype Value =
    IntV int
  | Rat rat
  | Bytes "byte list"
  | Text string
  | Seq "Value list"
  | Tag Value Value
  | Bool bool
  | NilV

definition string_bytes :: "string \<Rightarrow> byte list" where
  "string_bytes s = map of_char s"

definition bytes_string :: "byte list \<Rightarrow> string" where
  "bytes_string bs = map (\<lambda>b. char_of (unat b)) bs"

text \<open>\<open>(*big.Int).Bytes\<close>: the big-endian magnitude, without leading zero bytes.\<close>

fun big_Bytes :: "nat \<Rightarrow> byte list" where
  "big_Bytes n = (if n = 0 then [] else big_Bytes (n div 256) @ [of_nat (n mod 256)])"

text \<open>The loop of \<open>encodeVarint\<close>, and the function with its fast path for \<open>n < 128\<close>.\<close>

function varint_loop :: "nat \<Rightarrow> byte list" where
  "varint_loop n =
     (if 128 \<le> n then (of_nat (n AND 0x7F) OR 0x80) # varint_loop (drop_bit 7 n)
      else [of_nat n])"
  by pat_completeness auto
termination
  by (relation "measure id") (auto simp: drop_bit_eq_div)

definition encodeVarint :: "nat \<Rightarrow> byte list" where
  "encodeVarint n = (if n < 128 then [of_nat n] else varint_loop n)"

text \<open>
  The \<open>Encode\<close> methods. For \<open>Int\<close>, \<open>BitLen() <= 7\<close> on a positive value is \<open>v < 128\<close>;
  \<open>byte(len(bytes))\<close> keeps the low eight bits of the length, as \<open>of_nat\<close> into a word does.
\<close>

fun Encode :: "Value \<Rightarrow> byte list" where
  "Encode (IntV v) =
     (if v = 0 then [0x00]
      else if 0 < v \<and> v < 128 then [of_int v]
      else (if v < 0 then 0x80 else 0x40)
             # of_nat (length (big_Bytes (nat \<bar>v\<bar>))) # big_Bytes (nat \<bar>v\<bar>))"
| "Encode (Rat r) =
     (if r = 0 then [0x90, 0x00]
      else (let numBytes = big_Bytes (nat \<bar>fst (quotient_of r)\<bar>);
                denomBytes = big_Bytes (nat \<bar>snd (quotient_of r)\<bar>)
            in [0x90, if r < 0 then 0x80 else 0x00]
               @ of_nat (length numBytes) # numBytes
               @ of_nat (length denomBytes) # denomBytes))"
| "Encode (Bytes b) = 0xA0 # encodeVarint (length b) @ b"
| "Encode (Text s) = 0xB0 # encodeVarint (length (string_bytes s)) @ string_bytes s"
| "Encode (Seq items) = 0xC0 # encodeVarint (length items) @ concat (map Encode items)"
| "Encode (Tag l p) = 0xD0 # Encode l @ Encode p"
| "Encode (Bool b) = (if b then [0xE1] else [0xE0])"
| "Encode NilV = [0xF0]"

text \<open>
  \<open>QGID\<close> hashes the encoding with \<open>sha256.Sum256\<close> of the Go standard library, which is
  not part of the repository: it is the parameter \<open>Sum256\<close>, and everything proved holds for
  every function in its place.
\<close>

definition QGID :: "(byte list \<Rightarrow> byte list) \<Rightarrow> Value \<Rightarrow> byte list" where
  "QGID Sum256 v = Sum256 (Encode v)"

text \<open>
  \<open>Equal\<close>: a type switch on the first value and a type assertion on the second; every
  case that falls through returns false. \<open>Equal_items\<close> is the loop over the items of two
  sequences, entered only when their lengths agree.
\<close>

fun Equal :: "Value \<Rightarrow> Value \<Rightarrow> bool"
  and Equal_items :: "Value list \<Rightarrow> Value list \<Rightarrow> bool" where
  "Equal (IntV a) b = (case b of IntV b' \<Rightarrow> a = b' | _ \<Rightarrow> False)"
| "Equal (Rat a) b = (case b of Rat b' \<Rightarrow> a = b' | _ \<Rightarrow> False)"
| "Equal (Bytes a) b =
     (case b of Bytes b' \<Rightarrow> (if length a \<noteq> length b' then False else a = b') | _ \<Rightarrow> False)"
| "Equal (Text a) b = (case b of Text b' \<Rightarrow> a = b' | _ \<Rightarrow> False)"
| "Equal (Seq a) b =
     (case b of Seq b' \<Rightarrow> (if length a \<noteq> length b' then False else Equal_items a b')
      | _ \<Rightarrow> False)"
| "Equal (Tag l p) b = (case b of Tag l' p' \<Rightarrow> Equal l l' \<and> Equal p p' | _ \<Rightarrow> False)"
| "Equal (Bool a) b = (case b of Bool b' \<Rightarrow> a = b' | _ \<Rightarrow> False)"
| "Equal NilV b = (case b of NilV \<Rightarrow> True | _ \<Rightarrow> False)"
| "Equal_items [] ys = True"
| "Equal_items (x # xs) [] = True"
| "Equal_items (x # xs) (y # ys) = (if \<not> Equal x y then False else Equal_items xs ys)"

section \<open>Gaussian rationals\<close>

text \<open>
  \<open>QI\<close> is a pair of rationals; its fields \<open>Re\<close> and \<open>Im\<close> are \<open>Re_qi\<close> and \<open>Im_qi\<close>. Every
  operation of the source allocates fresh \<open>big.Rat\<close>s for its result, so a \<open>QI\<close> is an
  immutable value.
\<close>

record QI =
  Re_qi :: rat
  Im_qi :: rat

definition NewQI :: "rat \<Rightarrow> rat \<Rightarrow> QI" where
  "NewQI re im = \<lparr>Re_qi = re, Im_qi = im\<rparr>"

definition QIZero :: QI where
  "QIZero = \<lparr>Re_qi = 0, Im_qi = 0\<rparr>"

definition QIOne :: QI where
  "QIOne = \<lparr>Re_qi = 1, Im_qi = 0\<rparr>"

definition QII :: QI where
  "QII = \<lparr>Re_qi = 0, Im_qi = 1\<rparr>"

definition QINeg :: "QI \<Rightarrow> QI" where
  "QINeg q = \<lparr>Re_qi = - Re_qi q, Im_qi = - Im_qi q\<rparr>"

definition QIAdd :: "QI \<Rightarrow> QI \<Rightarrow> QI" where
  "QIAdd a b = \<lparr>Re_qi = Re_qi a + Re_qi b, Im_qi = Im_qi a + Im_qi b\<rparr>"

definition QISub :: "QI \<Rightarrow> QI \<Rightarrow> QI" where
  "QISub a b = \<lparr>Re_qi = Re_qi a - Re_qi b, Im_qi = Im_qi a - Im_qi b\<rparr>"

definition QIMul :: "QI \<Rightarrow> QI \<Rightarrow> QI" where
  "QIMul a b =
     (let ac = Re_qi a * Re_qi b; bd = Im_qi a * Im_qi b;
          ad = Re_qi a * Im_qi b; bc = Im_qi a * Re_qi b
      in \<lparr>Re_qi = ac - bd, Im_qi = ad + bc\<rparr>)"

definition QIConj :: "QI \<Rightarrow> QI" where
  "QIConj q = \<lparr>Re_qi = Re_qi q, Im_qi = - Im_qi q\<rparr>"

definition QINormSq :: "QI \<Rightarrow> rat" where
  "QINormSq q = (let reSq = Re_qi q * Re_qi q; imSq = Im_qi q * Im_qi q in reSq + imSq)"

text \<open>\<open>QIInv\<close> returns a pair: the inverse and whether it exists.\<close>

definition QIInv :: "QI \<Rightarrow> QI \<times> bool" where
  "QIInv q =
     (let normSq = QINormSq q in
      if normSq = 0 then (QIZero, False)
      else (let conj = QIConj q
            in (\<lparr>Re_qi = Re_qi conj / normSq, Im_qi = Im_qi conj / normSq\<rparr>, True)))"

definition QIDiv :: "QI \<Rightarrow> QI \<Rightarrow> QI \<times> bool" where
  "QIDiv a b =
     (case QIInv b of (inv_b, ok) \<Rightarrow> if \<not> ok then (QIZero, False) else (QIMul a inv_b, True))"

definition QIEqual :: "QI \<Rightarrow> QI \<Rightarrow> bool" where
  "QIEqual a b = (Re_qi a = Re_qi b \<and> Im_qi a = Im_qi b)"

definition QIIsZero :: "QI \<Rightarrow> bool" where
  "QIIsZero q = (Re_qi q = 0 \<and> Im_qi q = 0)"

definition QIScale :: "QI \<Rightarrow> rat \<Rightarrow> QI" where
  "QIScale q r = \<lparr>Re_qi = Re_qi q * r, Im_qi = Im_qi q * r\<rparr>"

section \<open>Machine integers\<close>

text \<open>
  A Go \<open>int\<close> is a 64-bit two's complement integer. It is modelled as an \<open>int\<close>, and every
  product or sum that the source computes on values it does not control is wrapped by
  \<open>wrap64\<close>; loop counters, which run from 0 below a bound that is itself an \<open>int\<close>, cannot
  overflow. \<open>Int64\<close> is \<open>(*big.Int).Int64\<close>: the low 64 bits of the magnitude, read as an
  \<open>int64\<close> and negated for a negative number.
\<close>

definition wrap64 :: "int \<Rightarrow> int" where
  "wrap64 x = signed_take_bit 63 x"

definition Int64 :: "int \<Rightarrow> int" where
  "Int64 x = (let v = wrap64 (\<bar>x\<bar> mod 2 ^ 64) in if x < 0 then wrap64 (- v) else v)"

section \<open>Matrices\<close>

text \<open>
  The source passes matrices by pointer and fills a fresh matrix in place, so a claim about
  what a call leaves untouched needs the aliasing: matrices live in a heap, a list of
  \<open>Matrix\<close> records addressed by position, and a \<open>*Matrix\<close> is an address or nil (\<open>None\<close>).
  Allocation appends to the heap. A computation takes the heap and either panics or
  returns a value and the new heap. Go has no dangling pointers; the model answers
  \<open>InvalidPointer\<close> for an address beyond the heap so that every function is total.
\<close>

record Matrix =
  Rows :: int
  Cols :: int
  Data :: "QI list"

type_synonym heap = "Matrix list"

type_synonym ptr = "nat option"

datatype panic = NilDereference | IndexOutOfRange | MakesliceLenOutOfRange | InvalidPointer

type_synonym 'a comp = "heap \<Rightarrow> panic + 'a \<times> heap"

definition ret :: "'a \<Rightarrow> 'a comp" where
  "ret x = (\<lambda>h. Inr (x, h))"

definition panics :: "panic \<Rightarrow> 'a comp" where
  "panics p = (\<lambda>h. Inl p)"

definition bind :: "'a comp \<Rightarrow> ('a \<Rightarrow> 'b comp) \<Rightarrow> 'b comp" where
  "bind m f = (\<lambda>h. case m h of Inl p \<Rightarrow> Inl p | Inr (x, h') \<Rightarrow> f x h')"

text \<open>
  \<open>for i := 0; i < n; i++\<close> is \<open>for_loop [0..<nat n]\<close>: the body receives the counter and
  the variables the loop updates, and a panic in the body ends the loop.
\<close>

fun for_loop :: "nat list \<Rightarrow> (nat \<Rightarrow> 'a \<Rightarrow> 'a comp) \<Rightarrow> 'a \<Rightarrow> 'a comp" where
  "for_loop [] body acc = ret acc"
| "for_loop (i # is) body acc = bind (body i acc) (for_loop is body)"

text \<open>
  Reading the fields of \<open>*p\<close>, reading \<open>p.Data[k]\<close> and writing \<open>p.Data[k] = v\<close>, with
  Go's nil check and bounds check. The write is the only operation that changes a matrix
  already in the heap.
\<close>

definition deref :: "ptr \<Rightarrow> Matrix comp" where
  "deref p = (\<lambda>h. case p of None \<Rightarrow> Inl NilDereference
                     | Some a \<Rightarrow> if a < length h then Inr (h ! a, h) else Inl InvalidPointer)"

definition load_Data :: "ptr \<Rightarrow> int \<Rightarrow> QI comp" where
  "load_Data p k =
     bind (deref p) (\<lambda>m.
       if 0 \<le> k \<and> k < int (length (Data m)) then ret (Data m ! nat k)
       else panics IndexOutOfRange)"

definition store_Data :: "ptr \<Rightarrow> int \<Rightarrow> QI \<Rightarrow> unit comp" where
  "store_Data p k v =
     bind (deref p) (\<lambda>m.
       if 0 \<le> k \<and> k < int (length (Data m))
       then (\<lambda>h. case p of None \<Rightarrow> Inl NilDereference
                   | Some a \<Rightarrow> Inr ((), h[a := m\<lparr>Data := (Data m)[nat k := v]\<rparr>]))
       else panics IndexOutOfRange)"

text \<open>
  \<open>NewMatrix\<close>: \<open>make([]QI, rows*cols)\<close> panics on a negative length; the loop that follows
  sets every entry to zero. Running out of memory is not modelled.
\<close>

definition NewMatrix :: "int \<Rightarrow> int \<Rightarrow> ptr comp" where
  "NewMatrix rows cols =
     (let n = wrap64 (rows * cols) in
      if n < 0 then panics MakesliceLenOutOfRange
      else (\<lambda>h. Inr (Some (length h),
                      h @ [\<lparr>Rows = rows, Cols = cols, Data = replicate (nat n) QIZero\<rparr>])))"

text \<open>The methods \<open>Get\<close>, \<open>Set\<close> and \<open>Clone\<close> of \<open>*Matrix\<close>.\<close>

definition Matrix_Get :: "ptr \<Rightarrow> int \<Rightarrow> int \<Rightarrow> QI comp" where
  "Matrix_Get m i j = bind (deref m) (\<lambda>M. load_Data m (wrap64 (wrap64 (i * Cols M) + j)))"

definition Matrix_Set :: "ptr \<Rightarrow> int \<Rightarrow> int \<Rightarrow> QI \<Rightarrow> unit comp" where
  "Matrix_Set m i j v = bind (deref m) (\<lambda>M. store_Data m (wrap64 (wrap64 (i * Cols M) + j)) v)"

definition Matrix_Clone :: "ptr \<Rightarrow> ptr comp" where
  "Matrix_Clone m =
     bind (deref m) (\<lambda>M.
     bind (NewMatrix (Rows M) (Cols M)) (\<lambda>result.
     bind (for_loop [0..<length (Data M)] (\<lambda>i _.
             bind (load_Data m (int i)) (\<lambda>q.
             store_Data result (int i) (NewQI (Re_qi q) (Im_qi q)))) ()) (\<lambda>_.
     ret result)))"

definition Identity :: "int \<Rightarrow> ptr comp" where
  "Identity n =
     bind (NewMatrix n n) (\<lambda>m.
     bind (for_loop [0..<nat n] (\<lambda>i _. Matrix_Set m (int i) (int i) QIOne) ()) (\<lambda>_.
     ret m))"

text \<open>
  \<open>MatMul\<close> returns nil when the inner dimensions differ; that is its only failure signal,
  the function has no error result. The fields \<open>Rows\<close> and \<open>Cols\<close> of a matrix are never
  assigned after its construction, so they are read once.
\<close>

definition MatMul :: "ptr \<Rightarrow> ptr \<Rightarrow> ptr comp" where
  "MatMul A B =
     bind (deref A) (\<lambda>a. bind (deref B) (\<lambda>b.
       if Cols a \<noteq> Rows b then ret None
       else
         bind (NewMatrix (Rows a) (Cols b)) (\<lambda>C.
         bind (for_loop [0..<nat (Rows a)] (\<lambda>i _.
                 for_loop [0..<nat (Cols b)] (\<lambda>j _.
                   bind (for_loop [0..<nat (Cols a)] (\<lambda>k sum.
                           bind (Matrix_Get A (int i) (int k)) (\<lambda>x.
                           bind (Matrix_Get B (int k) (int j)) (\<lambda>y.
                           ret (QIAdd sum (QIMul x y))))) QIZero) (\<lambda>sum.
                   Matrix_Set C (int i) (int j) sum)) ()) ()) (\<lambda>_.
         ret C))))"

definition MatAdd :: "ptr \<Rightarrow> ptr \<Rightarrow> ptr comp" where
  "MatAdd A B =
     bind (deref A) (\<lambda>a. bind (deref B) (\<lambda>b.
       if Rows a \<noteq> Rows b \<or> Cols a \<noteq> Cols b then ret None
       else
         bind (NewMatrix (Rows a) (Cols a)) (\<lambda>C.
         bind (for_loop [0..<length (Data a)] (\<lambda>i _.
                 bind (load_Data A (int i)) (\<lambda>x.
                 bind (load_Data B (int i)) (\<lambda>y.
                 store_Data C (int i) (QIAdd x y)))) ()) (\<lambda>_.
         ret C))))"

definition MatScale :: "ptr \<Rightarrow> rat \<Rightarrow> ptr comp" where
  "MatScale A r =
     bind (deref A) (\<lambda>a.
     bind (NewMatrix (Rows a) (Cols a)) (\<lambda>C.
     bind (for_loop [0..<length (Data a)] (\<lambda>i _.
             bind (load_Data A (int i)) (\<lambda>x. store_Data C (int i) (QIScale x r))) ()) (\<lambda>_.
     ret C)))"

definition Dagger :: "ptr \<Rightarrow> ptr comp" where
  "Dagger A =
     bind (deref A) (\<lambda>a.
     bind (NewMatrix (Cols a) (Rows a)) (\<lambda>B.
     bind (for_loop [0..<nat (Rows a)] (\<lambda>i _.
             for_loop [0..<nat (Cols a)] (\<lambda>j _.
               bind (Matrix_Get A (int i) (int j)) (\<lambda>x.
               Matrix_Set B (int j) (int i) (QIConj x))) ()) ()) (\<lambda>_.
     ret B)))"

definition Trace :: "ptr \<Rightarrow> QI comp" where
  "Trace A =
     bind (deref A) (\<lambda>a.
       if Rows a \<noteq> Cols a then ret QIZero
       else for_loop [0..<nat (Rows a)] (\<lambda>i sum.
              bind (Matrix_Get A (int i) (int i)) (\<lambda>x. ret (QIAdd sum x))) QIZero)"

definition Kronecker :: "ptr \<Rightarrow> ptr \<Rightarrow> ptr comp" where
  "Kronecker A B =
     bind (deref A) (\<lambda>a. bind (deref B) (\<lambda>b.
     (let rows = wrap64 (Rows a * Rows b); cols = wrap64 (Cols a * Cols b) in
      bind (NewMatrix rows cols) (\<lambda>C.
      bind (for_loop [0..<nat (Rows a)] (\<lambda>i _.
              for_loop [0..<nat (Cols a)] (\<lambda>j _.
                for_loop [0..<nat (Rows b)] (\<lambda>k _.
                  for_loop [0..<nat (Cols b)] (\<lambda>l _.
                    (let row = wrap64 (wrap64 (int i * Rows b) + int k);
                         col = wrap64 (wrap64 (int j * Cols b) + int l) in
                     bind (Matrix_Get A (int i) (int j)) (\<lambda>x.
                     bind (Matrix_Get B (int k) (int l)) (\<lambda>y.
                     Matrix_Set C row col (QIMul x y))))) ()) ()) ()) ()) (\<lambda>_.
      ret C)))))"

text \<open>
  \<open>qiFromValue\<close> and \<open>MatrixFromValue\<close>: a chain of type assertions, each of which returns
  \<open>false\<close> when it fails. \<open>fill_entries\<close> is the loop over the entries, which returns
  \<open>false\<close> at the first entry that is not a \<open>qi\<close> and otherwise writes entry \<open>i\<close> to
  \<open>m.Data[i]\<close>. The argument of \<open>MatrixFromValue\<close> is an interface value, which may be nil.
\<close>

definition qiFromValue :: "Value \<Rightarrow> QI \<times> bool" where
  "qiFromValue v =
     (case v of
        Tag label payload \<Rightarrow>
          (case label of
             Text l \<Rightarrow>
               if l \<noteq> ''qi'' then (QIZero, False)
               else (case payload of
                       Seq items \<Rightarrow>
                         if length items < 2 then (QIZero, False)
                         else (case items ! 0 of
                                 Rat re \<Rightarrow>
                                   (case items ! 1 of
                                      Rat im \<Rightarrow> (NewQI re im, True)
                                    | _ \<Rightarrow> (QIZero, False))
                               | _ \<Rightarrow> (QIZero, False))
                     | _ \<Rightarrow> (QIZero, False))
           | _ \<Rightarrow> (QIZero, False))
      | _ \<Rightarrow> (QIZero, False))"

fun fill_entries :: "ptr \<Rightarrow> nat \<Rightarrow> Value list \<Rightarrow> bool comp" where
  "fill_entries m i [] = ret True"
| "fill_entries m i (item # items) =
     (case qiFromValue item of
        (qi, ok) \<Rightarrow>
          if \<not> ok then ret False
          else bind (store_Data m (int i) qi) (\<lambda>_. fill_entries m (Suc i) items))"

definition MatrixFromValue :: "Value option \<Rightarrow> (ptr \<times> bool) comp" where
  "MatrixFromValue v =
     (case v of
        Some (Tag label payload) \<Rightarrow>
          (case label of
             Text l \<Rightarrow>
               if l \<noteq> ''matrix'' then ret (None, False)
               else (case payload of
                       Seq items \<Rightarrow>
                         if length items < 3 then ret (None, False)
                         else (case items ! 0 of
                                 IntV rows \<Rightarrow>
                                   (case items ! 1 of
                                      IntV cols \<Rightarrow>
                                        (case items ! 2 of
                                           Seq entries \<Rightarrow>
                                             bind (NewMatrix (Int64 rows) (Int64 cols)) (\<lambda>m.
                                             bind (fill_entries m 0 entries) (\<lambda>ok.
                                             if \<not> ok then ret (None, False)
                                             else ret (m, True)))
                                         | _ \<Rightarrow> ret (None, False))
                                    | _ \<Rightarrow> ret (None, False))
                               | _ \<Rightarrow> ret (None, False))
                     | _ \<Rightarrow> ret (None, False))
           | _ \<Rightarrow> ret (None, False))
      | _ \<Rightarrow> ret (None, False))"

section \<open>Objects, circuits and the store\<close>

text \<open>
  \<open>Prim\<close> is an \<open>int\<close> with 24 named constants; any other integer is a \<open>Prim\<close> too. The
  fields \<open>Domain\<close> and \<open>Data\<close> of a circuit are \<open>Domain_c\<close> and \<open>Data_c\<close>; \<open>Data\<close> is an
  interface value and may be nil. A \<open>[32]byte\<close> is a byte list.
\<close>

type_synonym Prim = int

definition PrimId :: Prim where "PrimId = 0"
definition PrimCompose :: Prim where "PrimCompose = 1"
definition PrimTensor :: Prim where "PrimTensor = 2"
definition PrimSwap :: Prim where "PrimSwap = 3"
definition PrimBisum :: Prim where "PrimBisum = 4"
definition PrimInject :: Prim where "PrimInject = 5"
definition PrimProject :: Prim where "PrimProject = 6"
definition PrimCopy :: Prim where "PrimCopy = 7"
definition PrimDelete :: Prim where "PrimDelete = 8"
definition PrimEncode :: Prim where "PrimEncode = 9"
definition PrimDecode :: Prim where "PrimDecode = 10"
definition PrimDiscard :: Prim where "PrimDiscard = 11"
definition PrimTrace :: Prim where "PrimTrace = 12"
definition PrimChoi :: Prim where "PrimChoi = 13"
definition PrimKraus :: Prim where "PrimKraus = 14"
definition PrimUnitary :: Prim where "PrimUnitary = 15"
definition PrimInstrument :: Prim where "PrimInstrument = 16"
definition PrimBranch :: Prim where "PrimBranch = 17"
definition PrimPrepare :: Prim where "PrimPrepare = 18"
definition PrimAdd :: Prim where "PrimAdd = 19"
definition PrimScale :: Prim where "PrimScale = 20"
definition PrimZero :: Prim where "PrimZero = 21"
definition PrimAssert :: Prim where "PrimAssert = 22"
definition PrimWitness :: Prim where "PrimWitness = 23"

record Object =
  Blocks :: "32 word list"

record Circuit =
  Domain_c :: Object
  Codomain :: Object
  Prim :: Prim
  Data_c :: "Value option"
  Children :: "byte list list"

text \<open>The two maps of the store; the field \<open>values\<close> is \<open>values_s\<close>.\<close>

record Store =
  circuits :: "byte list \<Rightarrow> Circuit option"
  values_s :: "byte list \<Rightarrow> Value option"

definition NewStore :: Store where
  "NewStore = \<lparr>circuits = Map.empty, values_s = Map.empty\<rparr>"

definition ObjectToValue :: "Object \<Rightarrow> Value" where
  "ObjectToValue obj = Tag (Text ''object'') (Seq (map (\<lambda>n. IntV (uint n)) (Blocks obj)))"

definition CircuitToValue :: "Circuit \<Rightarrow> Value" where
  "CircuitToValue c =
     (let children = map Bytes (Children c);
          data = (case Data_c c of None \<Rightarrow> NilV | Some d \<Rightarrow> d)
      in Tag (Text ''circuit'')
           (Seq [ObjectToValue (Domain_c c), ObjectToValue (Codomain c), IntV (Prim c), data,
                 Seq children]))"

text \<open>
  The methods of \<open>*Store\<close>. \<open>Get\<close> and \<open>GetValue\<close> return the entry and whether it exists,
  an \<open>option\<close>; \<open>Put\<close> and \<open>PutValue\<close> return the key and the updated store.
\<close>

definition Store_Get :: "Store \<Rightarrow> byte list \<Rightarrow> Circuit option" where
  "Store_Get s k = circuits s k"

definition Store_Put :: "(byte list \<Rightarrow> byte list) \<Rightarrow> Store \<Rightarrow> Circuit \<Rightarrow> byte list \<times> Store" where
  "Store_Put Sum256 s c =
     (let v = CircuitToValue c; k = QGID Sum256 v
      in (k, s\<lparr>circuits := (circuits s)(k \<mapsto> c), values_s := (values_s s)(k \<mapsto> v)\<rparr>))"

definition Store_GetValue :: "Store \<Rightarrow> byte list \<Rightarrow> Value option" where
  "Store_GetValue s k = values_s s k"

definition Store_PutValue :: "(byte list \<Rightarrow> byte list) \<Rightarrow> Store \<Rightarrow> Value \<Rightarrow> byte list \<times> Store" where
  "Store_PutValue Sum256 s v =
     (let k = QGID Sum256 v in (k, s\<lparr>values_s := (values_s s)(k \<mapsto> v)\<rparr>))"

text \<open>A sequence of insertions, applied to a store from left to right.\<close>

datatype store_op = PutCircuit Circuit | PutValue Value

fun run_ops :: "(byte list \<Rightarrow> byte list) \<Rightarrow> Store \<Rightarrow> store_op list \<Rightarrow> Store" where
  "run_ops Sum256 s [] = s"
| "run_ops Sum256 s (PutCircuit c # ops) = run_ops Sum256 (snd (Store_Put Sum256 s c)) ops"
| "run_ops Sum256 s (PutValue v # ops) = run_ops Sum256 (snd (Store_PutValue Sum256 s v)) ops"

text \<open>
  \<open>objectDim\<close>: a block size is a \<open>uint32\<close>, and \<open>n * n\<close> is computed in \<open>uint32\<close> before
  it is converted to \<open>int\<close>.
\<close>

definition objectDim :: "Object \<Rightarrow> int" where
  "objectDim obj =
     (if length (Blocks obj) = 0 then 1
      else foldl (\<lambda>dim n. wrap64 (dim + uint (n * n))) 0 (Blocks obj))"

section \<open>The executor\<close>

text \<open>
  An \<open>error\<close> is what \<open>fmt.Errorf\<close> builds: the format string and its arguments. A call
  that returns \<open>(*Matrix, error)\<close> returns a \<open>result\<close>.
\<close>

datatype fmt_arg = ArgInt int | ArgErr error
  and error = Errorf string "fmt_arg list"

type_synonym result = "ptr \<times> error option"

definition errorf :: "string \<Rightarrow> result" where
  "errorf msg = (None, Some (Errorf msg []))"

text \<open>
  The helpers of \<open>Execute\<close>. Go evaluates the arguments of a call from left to right, so
  in \<open>MatMul(MatMul(result, input), Dagger(result))\<close> the inner product comes first, then
  the conjugate transpose, then the outer product.
\<close>

definition applySwap :: "Object \<Rightarrow> Object \<Rightarrow> ptr \<Rightarrow> result comp" where
  "applySwap domain codomain input =
     (let n = objectDim domain in
      bind (NewMatrix n n) (\<lambda>result.
      bind (for_loop [0..<nat n] (\<lambda>i _. Matrix_Set result (int i) (int i) QIOne) ()) (\<lambda>_.
      bind (MatMul result input) (\<lambda>l.
      bind (Dagger result) (\<lambda>r.
      bind (MatMul l r) (\<lambda>m. ret (m, None)))))))"

definition applyDiscard :: "Object \<Rightarrow> ptr \<Rightarrow> result comp" where
  "applyDiscard domain input =
     bind (Trace input) (\<lambda>tr.
     bind (NewMatrix 1 1) (\<lambda>result.
     bind (Matrix_Set result 0 0 tr) (\<lambda>_.
     ret (result, None))))"

definition applyUnitary :: "Circuit \<Rightarrow> ptr \<Rightarrow> result comp" where
  "applyUnitary c input =
     bind (MatrixFromValue (Data_c c)) (\<lambda>(U, ok).
       if \<not> ok then ret (errorf ''unitary data must be matrix'')
       else bind (Dagger U) (\<lambda>Udag.
            bind (MatMul U input) (\<lambda>l.
            bind (MatMul l Udag) (\<lambda>m. ret (m, None)))))"

definition applyChoi :: "Circuit \<Rightarrow> ptr \<Rightarrow> result comp" where
  "applyChoi c input =
     bind (MatrixFromValue (Data_c c)) (\<lambda>(J, ok).
       if \<not> ok then ret (errorf ''choi data must be matrix'')
       else
         (let inDim = objectDim (Domain_c c); outDim = objectDim (Codomain c) in
          bind (NewMatrix outDim outDim) (\<lambda>result.
          bind (for_loop [0..<nat outDim] (\<lambda>i _.
                  for_loop [0..<nat outDim] (\<lambda>j _.
                    bind (for_loop [0..<nat inDim] (\<lambda>k sum.
                            for_loop [0..<nat inDim] (\<lambda>l sum.
                              bind (Matrix_Get input (int l) (int k)) (\<lambda>rhoEntry.
                              (let jRow = wrap64 (wrap64 (int k * outDim) + int i);
                                   jCol = wrap64 (wrap64 (int l * outDim) + int j) in
                               bind (deref J) (\<lambda>Jm.
                                 if jRow < Rows Jm \<and> jCol < Cols Jm
                                 then bind (Matrix_Get J jRow jCol) (\<lambda>jEntry.
                                      ret (QIAdd sum (QIMul rhoEntry jEntry)))
                                 else ret sum)))) sum) QIZero) (\<lambda>sum.
                    Matrix_Set result (int i) (int j) sum)) ()) ()) (\<lambda>_.
          ret (result, None)))))"

definition applyPrepare :: "Circuit \<Rightarrow> result comp" where
  "applyPrepare c =
     bind (MatrixFromValue (Data_c c)) (\<lambda>(rho, ok).
       if \<not> ok then ret (errorf ''prepare data must be matrix'')
       else bind (Matrix_Clone rho) (\<lambda>m. ret (m, None)))"

text \<open>
  \<open>Execute\<close> runs on the executor's store and the heap of matrices. It recurses into the
  circuits it finds in the store, and nothing in the code bounds that recursion, so the
  function takes fuel: one unit per nested call, and the answer \<open>None\<close> when it runs out.
  A run that ends is \<open>Some\<close> of a panic or of the pair the Go function returns, with the
  state it leaves.
\<close>

record state =
  store :: Store
  mem :: heap

type_synonym 'a run = "state \<Rightarrow> (panic + 'a \<times> state) option"

definition lift :: "'a comp \<Rightarrow> 'a run" where
  "lift m = (\<lambda>s. case m (mem s) of Inl p \<Rightarrow> Some (Inl p)
                               | Inr (x, h) \<Rightarrow> Some (Inr (x, s\<lparr>mem := h\<rparr>)))"

definition returns :: "'a \<Rightarrow> 'a run" where
  "returns x = (\<lambda>s. Some (Inr (x, s)))"

definition and_then :: "'a run \<Rightarrow> ('a \<Rightarrow> 'b run) \<Rightarrow> 'b run" where
  "and_then m f = (\<lambda>s. case m s of None \<Rightarrow> None | Some (Inl p) \<Rightarrow> Some (Inl p)
                                  | Some (Inr (x, s')) \<Rightarrow> f x s')"

text \<open>\<open>e.store.Get(id)\<close>: a read of the executor's store.\<close>

definition get_circuit :: "byte list \<Rightarrow> Circuit option run" where
  "get_circuit k = (\<lambda>s. Some (Inr (Store_Get (store s) k, s)))"

fun Execute :: "nat \<Rightarrow> Circuit \<Rightarrow> ptr \<Rightarrow> result run" where
  "Execute 0 c input = (\<lambda>s. None)"
| "Execute (Suc n) c input =
     (if Prim c = PrimId then lift (bind (Matrix_Clone input) (\<lambda>m. ret (m, None)))
      else if Prim c = PrimCompose then
        (if length (Children c) \<noteq> 2 then returns (errorf ''compose requires 2 children'')
         else
           and_then (get_circuit (Children c ! 0)) (\<lambda>f_ok.
           case f_ok of
             None \<Rightarrow> returns (errorf ''child 0 not found'')
           | Some f \<Rightarrow>
               and_then (get_circuit (Children c ! 1)) (\<lambda>g_ok.
               case g_ok of
                 None \<Rightarrow> returns (errorf ''child 1 not found'')
               | Some g \<Rightarrow>
                   and_then (Execute n f input) (\<lambda>(intermediate, err).
                     if err \<noteq> None then returns (None, err)
                     else Execute n g intermediate))))
      else if Prim c = PrimTensor then
        (if length (Children c) \<noteq> 2 then returns (errorf ''tensor requires 2 children'')
         else
           and_then (get_circuit (Children c ! 0)) (\<lambda>f_ok.
           case f_ok of
             None \<Rightarrow> returns (errorf ''child 0 not found'')
           | Some f \<Rightarrow>
               and_then (get_circuit (Children c ! 1)) (\<lambda>g_ok.
               case g_ok of
                 None \<Rightarrow> returns (errorf ''child 1 not found'')
               | Some g \<Rightarrow>
                  (let fDim = objectDim (Domain_c f); gDim = objectDim (Domain_c g) in
                   and_then (lift (Identity fDim)) (\<lambda>fId.
                   and_then (lift (Identity gDim)) (\<lambda>gId.
                   and_then (Execute n f fId) (\<lambda>(fResult, err).
                     if err \<noteq> None then returns (None, err)
                     else
                       and_then (Execute n g gId) (\<lambda>(gResult, err).
                         if err \<noteq> None then returns (None, err)
                         else lift (bind (Kronecker fResult gResult)
                                      (\<lambda>m. ret (m, None)))))))))))
      else if Prim c = PrimSwap then lift (applySwap (Domain_c c) (Codomain c) input)
      else if Prim c = PrimDiscard then lift (applyDiscard (Domain_c c) input)
      else if Prim c = PrimZero then
        (let outDim = objectDim (Codomain c) in
         lift (bind (NewMatrix outDim outDim) (\<lambda>m. ret (m, None))))
      else if Prim c = PrimUnitary then lift (applyUnitary c input)
      else if Prim c = PrimChoi then lift (applyChoi c input)
      else if Prim c = PrimPrepare then lift (applyPrepare c)
      else if Prim c = PrimAdd then
        (if length (Children c) \<noteq> 2 then returns (errorf ''add requires 2 children'')
         else
           and_then (get_circuit (Children c ! 0)) (\<lambda>f_ok.
           case f_ok of
             None \<Rightarrow> returns (errorf ''child 0 not found'')
           | Some f \<Rightarrow>
               and_then (get_circuit (Children c ! 1)) (\<lambda>g_ok.
               case g_ok of
                 None \<Rightarrow> returns (errorf ''child 1 not found'')
               | Some g \<Rightarrow>
                   and_then (Execute n f input) (\<lambda>(fResult, err).
                     if err \<noteq> None then returns (None, err)
                     else
                       and_then (Execute n g input) (\<lambda>(gResult, err).
                         if err \<noteq> None then returns (None, err)
                         else lift (bind (MatAdd fResult gResult)
                                      (\<lambda>m. ret (m, None))))))))
      else if Prim c = PrimScale then
        (if length (Children c) \<noteq> 1 then returns (errorf ''scale requires 1 child'')
         else
           (case Data_c c of
              Some (Rat r) \<Rightarrow>
                and_then (get_circuit (Children c ! 0)) (\<lambda>child_ok.
                case child_ok of
                  None \<Rightarrow> returns (errorf ''child not found'')
                | Some child \<Rightarrow>
                    and_then (Execute n child input) (\<lambda>(result, err).
                      if err \<noteq> None then returns (None, err)
                      else lift (bind (MatScale result r) (\<lambda>m. ret (m, None)))))
            | _ \<Rightarrow> returns (errorf ''scale data must be Rat'')))
      else returns (None, Some (Errorf ''unsupported primitive: %v'' [ArgInt (Prim c)])))"

text \<open>
  A call of \<open>Execute\<close> ends with an outcome when some amount of fuel yields it.
\<close>

definition Execute_ends :: "Circuit \<Rightarrow> ptr \<Rightarrow> state \<Rightarrow> panic + result \<times> state \<Rightarrow> bool" where
  "Execute_ends c input s out \<longleftrightarrow> (\<exists>n. Execute n c input s = Some out)"

section \<open>The binary container and the runner\<close>

text \<open>
  \<open>Encode\<close> fills a buffer of exactly the right size from left to right; as \<open>Magic\<close> is a
  \<open>[4]byte\<close> and \<open>Entrypoint\<close> a \<open>[32]byte\<close>, the buffer is the concatenation of the
  segments. A length is written as four bytes, most significant first, each the low eight
  bits of a shift of the length.
\<close>

record EmbeddedBinary =
  Magic :: "byte list"
  Entrypoint :: "byte list"
  Name :: string
  Version :: string
  StoreData :: "byte list"

definition put_len32 :: "nat \<Rightarrow> byte list" where
  "put_len32 n = [of_nat (drop_bit 24 n), of_nat (drop_bit 16 n), of_nat (drop_bit 8 n), of_nat n]"

definition get_len32 :: "byte list \<Rightarrow> nat \<Rightarrow> nat" where
  "get_len32 data offset =
     push_bit 24 (unat (data ! offset)) OR push_bit 16 (unat (data ! (offset + 1)))
       OR push_bit 8 (unat (data ! (offset + 2))) OR unat (data ! (offset + 3))"

definition EmbeddedBinary_Encode :: "EmbeddedBinary \<Rightarrow> byte list" where
  "EmbeddedBinary_Encode e =
     (let nameBytes = string_bytes (Name e); versionBytes = string_bytes (Version e)
      in Magic e @ Entrypoint e
         @ put_len32 (length nameBytes) @ nameBytes
         @ put_len32 (length versionBytes) @ versionBytes
         @ StoreData e)"

definition Decode :: "byte list \<Rightarrow> error + EmbeddedBinary" where
  "Decode data =
     (if length data < 4 then Inl (Errorf ''data too short'' [])
      else if data ! 0 \<noteq> 0x51 \<or> data ! 1 \<noteq> 0x4D \<or> data ! 2 \<noteq> 0x42 \<or> data ! 3 \<noteq> 0x01
        then Inl (Errorf (''invalid magic: expected QMB'' @ [CHR 0x5C] @ ''x01'') [])
      else if length data < 36 then Inl (Errorf ''data too short for entrypoint'' [])
      else (let offset = 36 in
        if length data < offset + 4 then Inl (Errorf ''data too short for name length'' [])
        else (let nameLen = get_len32 data offset; offset = offset + 4 in
          if length data < offset + nameLen then Inl (Errorf ''data too short for name'' [])
          else (let name = bytes_string (take nameLen (drop offset data));
                    offset = offset + nameLen in
            if length data < offset + 4
              then Inl (Errorf ''data too short for version length'' [])
            else (let versionLen = get_len32 data offset; offset = offset + 4 in
              if length data < offset + versionLen
                then Inl (Errorf ''data too short for version'' [])
              else (let version = bytes_string (take versionLen (drop offset data));
                        offset = offset + versionLen in
                Inr \<lparr>Magic = take 4 data, Entrypoint = take 32 (drop 4 data),
                     Name = name, Version = version,
                     StoreData = drop offset data\<rparr>))))))"

text \<open>
  The loader: \<open>decodeValue\<close> looks at the first byte only, \<open>importValues\<close> calls
  \<open>PutValue\<close> for the value or for each item of a sequence, and neither returns an error.
\<close>

definition decodeValue :: "byte list \<Rightarrow> Value \<times> error option" where
  "decodeValue data =
     (if length data = 0 then (NilV, None)
      else if data ! 0 = 0x00 then (IntV 0, None)
      else if data ! 0 = 0xF0 then (NilV, None)
      else if data ! 0 = 0xE0 then (Bool False, None)
      else if data ! 0 = 0xE1 then (Bool True, None)
      else (Bytes data, None))"

definition importValues ::
  "(byte list \<Rightarrow> byte list) \<Rightarrow> Store \<Rightarrow> Value \<Rightarrow> error option \<times> Store" where
  "importValues Sum256 st v =
     (case v of
        Seq items \<Rightarrow> (None, foldl (\<lambda>s item. snd (Store_PutValue Sum256 s item)) st items)
      | _ \<Rightarrow> (None, snd (Store_PutValue Sum256 st v)))"

definition loadStoreData ::
  "(byte list \<Rightarrow> byte list) \<Rightarrow> Store \<Rightarrow> byte list \<Rightarrow> error option \<times> Store" where
  "loadStoreData Sum256 st data =
     (if length data = 0 then (None, st)
      else (case decodeValue data of
              (v, Some err) \<Rightarrow> (Some err, st)
            | (v, None) \<Rightarrow> importValues Sum256 st v))"

text \<open>
  A \<open>Runner\<close> holds the decoded binary and the store; its executor points to the same
  store. The field \<open>store\<close> is \<open>store_r\<close>.
\<close>

record Runner =
  binary :: EmbeddedBinary
  store_r :: Store

definition NewRunner :: "(byte list \<Rightarrow> byte list) \<Rightarrow> byte list \<Rightarrow> error + Runner" where
  "NewRunner Sum256 data =
     (case Decode data of
        Inl err \<Rightarrow> Inl (Errorf ''decode failed: %w'' [ArgErr err])
      | Inr b \<Rightarrow>
          (case loadStoreData Sum256 NewStore (StoreData b) of
             (Some err, st) \<Rightarrow> Inl (Errorf ''load store failed: %w'' [ArgErr err])
           | (None, st) \<Rightarrow> Inr \<lparr>binary = b, store_r = st\<rparr>))"

definition Runner_Run :: "nat \<Rightarrow> Runner \<Rightarrow> ptr \<Rightarrow> heap \<Rightarrow> (panic + result \<times> state) option" where
  "Runner_Run n r input h =
     and_then (get_circuit (Entrypoint (binary r))) (\<lambda>c_ok.
       case c_ok of
         None \<Rightarrow> returns (errorf ''entrypoint circuit not found'')
       | Some c \<Rightarrow> Execute n c input)
     \<lparr>store = store_r r, mem = h\<rparr>"

section \<open>Invariants used in the statements\<close>

text \<open>The invariant of the store: every entry is filed under the QGID of its value.\<close>

definition store_keyed :: "(byte list \<Rightarrow> byte list) \<Rightarrow> Store \<Rightarrow> bool" where
  "store_keyed Sum256 s \<longleftrightarrow>
     (\<forall>k c. circuits s k = Some c \<longrightarrow> k = QGID Sum256 (CircuitToValue c))
     \<and> (\<forall>k v. values_s s k = Some v \<longrightarrow> k = QGID Sum256 v)"

chapter \<open>Properties\<close>

section \<open>Equality and content addresses\<close>

lemma Equal_structural:
  "Equal a b = (a = b)"
  "length xs = length ys \<Longrightarrow> Equal_items xs ys = (xs = ys)"
  by (induction a b and xs ys rule: Equal_Equal_items.induct) (auto split: Value.splits)

text \<open>
  Claim C2, as amended. \<open>Equal\<close> is structural equality, so two values that are \<open>Equal\<close>
  have the same canonical encoding and therefore the same QGID, whatever the hash function.
  The converse fails: the encoding is not injective (see the counterexample below).
\<close>

theorem Equal_imp_QGID_eq:
  "Equal a b \<Longrightarrow> Encode a = Encode b \<and> QGID Sum256 a = QGID Sum256 b"
  by (simp add: Equal_structural(1))

theorem Equal_imp_QGID_eq_witness:
  "\<forall>Sum256. Equal (Seq [IntV 42, Text ''a'']) (Seq [IntV 42, Text ''a''])
     \<and> Encode (Seq [IntV 42, Text ''a'']) = [0xC0, 2, 42, 0xB0, 1, 97]
     \<and> QGID Sum256 (Seq [IntV 42, Text ''a'']) = Sum256 [0xC0, 2, 42, 0xB0, 1, 97]"
proof
  fix Sum256 :: "byte list \<Rightarrow> byte list"
  have e: "Equal (Seq [IntV 42, Text ''a'']) (Seq [IntV 42, Text ''a''])"
    by simp
  show "Equal (Seq [IntV 42, Text ''a'']) (Seq [IntV 42, Text ''a''])
     \<and> Encode (Seq [IntV 42, Text ''a'']) = [0xC0, 2, 42, 0xB0, 1, 97]
     \<and> QGID Sum256 (Seq [IntV 42, Text ''a'']) = Sum256 [0xC0, 2, 42, 0xB0, 1, 97]"
    using Equal_imp_QGID_eq [OF e, of Sum256]
    by (simp add: QGID_def encodeVarint_def string_bytes_def)
qed

text \<open>
  The claim as stated is false. The byte \<open>0x40\<close> is both the small integer 64 and the marker
  of a large non-negative integer, and \<open>0x01\<close>, \<open>0x05\<close> are both small integers and a length
  and a magnitude byte: the sequences \<open>[64, 1, -5]\<close> and \<open>[128, 1, 5]\<close> are different values,
  \<open>Equal\<close> says so, and they have the same encoding \<open>C0 03 40 01 80 01 05\<close>, hence the same
  QGID under every hash function.
\<close>

theorem QGID_not_injective_counterexample:
  "\<not> Equal (Seq [IntV 64, IntV 1, IntV (- 5)]) (Seq [IntV 128, IntV 1, IntV 5])
   \<and> Encode (Seq [IntV 64, IntV 1, IntV (- 5)]) = Encode (Seq [IntV 128, IntV 1, IntV 5])
   \<and> (\<forall>Sum256. QGID Sum256 (Seq [IntV 64, IntV 1, IntV (- 5)])
                = QGID Sum256 (Seq [IntV 128, IntV 1, IntV 5]))"
  by (simp add: QGID_def encodeVarint_def)

section \<open>The field of Gaussian rationals\<close>

lemma QINormSq_eq_0_iff: "QINormSq q = 0 \<longleftrightarrow> Re_qi q = 0 \<and> Im_qi q = 0"
  by (simp add: QINormSq_def sum_squares_eq_zero_iff)

text \<open>
  Claim C7. \<open>QIInv\<close> reports failure (its second component is false) exactly when the norm
  squared is zero, which is exactly when \<open>q\<close> is \<open>(0, 0)\<close>; and for every other \<open>q\<close> the
  product of \<open>q\<close> and the inverse returned is one.
\<close>

theorem QIInv_fails_iff_zero:
  "(\<not> snd (QIInv q) \<longleftrightarrow> QINormSq q = 0)
   \<and> (QINormSq q = 0 \<longleftrightarrow> q = QIZero)
   \<and> (q \<noteq> QIZero \<longrightarrow> snd (QIInv q) \<and> QIMul q (fst (QIInv q)) = QIOne)"
proof -
  have z: "QINormSq q = 0 \<longleftrightarrow> q = QIZero"
    by (cases q) (simp add: QINormSq_eq_0_iff QIZero_def)
  have f: "\<not> snd (QIInv q) \<longleftrightarrow> QINormSq q = 0"
    by (simp add: QIInv_def Let_def)
  have m: "QIMul q (fst (QIInv q)) = QIOne" if "q \<noteq> QIZero"
  proof -
    from that z have n: "Re_qi q * Re_qi q + Im_qi q * Im_qi q \<noteq> 0"
      by (simp add: QINormSq_def Let_def)
    define d where "d = Re_qi q * Re_qi q + Im_qi q * Im_qi q"
    have re: "Re_qi q * (Re_qi q / d) - Im_qi q * (- Im_qi q / d) = 1"
    proof -
      have "d \<noteq> 0" using n by (simp add: d_def)
      have "Re_qi q * (Re_qi q / d) - Im_qi q * (- Im_qi q / d)
            = (Re_qi q * Re_qi q + Im_qi q * Im_qi q) / d"
        by (simp add: add_divide_distrib)
      also have "\<dots> = d / d" by (simp only: d_def)
      also have "\<dots> = 1" using \<open>d \<noteq> 0\<close> by simp
      finally show ?thesis .
    qed
    have im: "Re_qi q * (- Im_qi q / d) + Im_qi q * (Re_qi q / d) = 0"
      by (simp add: mult.commute)
    have inv: "fst (QIInv q) = \<lparr>Re_qi = Re_qi q / d, Im_qi = - Im_qi q / d\<rparr>"
    proof -
      have dq: "QINormSq q = d" by (simp add: QINormSq_def d_def Let_def)
      have "d \<noteq> 0" using n by (simp add: d_def)
      then show ?thesis by (simp add: QIInv_def Let_def QIConj_def dq)
    qed
    have "QIMul q \<lparr>Re_qi = Re_qi q / d, Im_qi = - Im_qi q / d\<rparr>
          = \<lparr>Re_qi = Re_qi q * (Re_qi q / d) - Im_qi q * (- Im_qi q / d),
             Im_qi = Re_qi q * (- Im_qi q / d) + Im_qi q * (Re_qi q / d)\<rparr>"
      by (simp add: QIMul_def Let_def)
    then show ?thesis
      unfolding inv re im by (simp add: QIOne_def)
  qed
  from z f m show ?thesis by blast
qed

theorem QIInv_fails_iff_zero_witness:
  "QII \<noteq> QIZero \<and> QIInv QII = (\<lparr>Re_qi = 0, Im_qi = - 1\<rparr>, True)
   \<and> QIMul QII (fst (QIInv QII)) = QIOne
   \<and> \<not> snd (QIInv QIZero) \<and> QINormSq QIZero = 0"
  using QIInv_fails_iff_zero [of QII] QIInv_fails_iff_zero [of QIZero]
  by (simp add: QII_def QIZero_def QIInv_def QINormSq_def QIConj_def)

section \<open>The store\<close>

lemma store_keyed_NewStore: "store_keyed Sum256 NewStore"
  by (simp add: store_keyed_def NewStore_def)

lemma store_keyed_Put: "store_keyed Sum256 s \<Longrightarrow> store_keyed Sum256 (snd (Store_Put Sum256 s c))"
  by (auto simp: store_keyed_def Store_Put_def Let_def)

lemma store_keyed_PutValue:
  "store_keyed Sum256 s \<Longrightarrow> store_keyed Sum256 (snd (Store_PutValue Sum256 s v))"
  by (auto simp: store_keyed_def Store_PutValue_def Let_def)

lemma store_keyed_run_ops: "store_keyed Sum256 s \<Longrightarrow> store_keyed Sum256 (run_ops Sum256 s ops)"
  by (induction Sum256 s ops rule: run_ops.induct)
     (simp_all add: store_keyed_Put store_keyed_PutValue)

lemma Store_Put_idem:
  "Store_Put Sum256 (snd (Store_Put Sum256 s c)) c = Store_Put Sum256 s c"
  by (simp add: Store_Put_def Let_def)

text \<open>
  Claim C8. In every store that a sequence of \<open>Put\<close> and \<open>PutValue\<close> calls builds from the
  empty store, a circuit is filed under the QGID of its encoding as a value and a value
  under its own QGID; and putting a circuit a second time returns the same key and leaves
  the store as the first insertion left it, so no entry is duplicated.
\<close>

theorem store_content_addressed:
  "(\<forall>k c. circuits (run_ops Sum256 NewStore ops) k = Some c
            \<longrightarrow> k = QGID Sum256 (CircuitToValue c))
   \<and> (\<forall>k v. values_s (run_ops Sum256 NewStore ops) k = Some v \<longrightarrow> k = QGID Sum256 v)
   \<and> fst (Store_Put Sum256 (snd (Store_Put Sum256 (run_ops Sum256 NewStore ops) c)) c)
       = fst (Store_Put Sum256 (run_ops Sum256 NewStore ops) c)
   \<and> snd (Store_Put Sum256 (snd (Store_Put Sum256 (run_ops Sum256 NewStore ops) c)) c)
       = snd (Store_Put Sum256 (run_ops Sum256 NewStore ops) c)"
  using store_keyed_run_ops [OF store_keyed_NewStore, of Sum256 ops]
  by (simp add: store_keyed_def Store_Put_idem)

theorem store_content_addressed_witness:
  "\<forall>Sum256.
     circuits (run_ops Sum256 NewStore [PutCircuit
        \<lparr>Domain_c = \<lparr>Blocks = [2]\<rparr>, Codomain = \<lparr>Blocks = [2]\<rparr>, Prim = PrimId,
         Data_c = None, Children = []\<rparr>, PutValue (IntV 42)])
       (Sum256 (Encode (Tag (Text ''circuit'')
          (Seq [Tag (Text ''object'') (Seq [IntV 2]), Tag (Text ''object'') (Seq [IntV 2]),
                IntV 0, NilV, Seq []]))))
       = Some \<lparr>Domain_c = \<lparr>Blocks = [2]\<rparr>, Codomain = \<lparr>Blocks = [2]\<rparr>, Prim = PrimId,
               Data_c = None, Children = []\<rparr>
     \<and> values_s (run_ops Sum256 NewStore [PutCircuit
        \<lparr>Domain_c = \<lparr>Blocks = [2]\<rparr>, Codomain = \<lparr>Blocks = [2]\<rparr>, Prim = PrimId,
         Data_c = None, Children = []\<rparr>, PutValue (IntV 42)])
       (Sum256 [42]) = Some (IntV 42)"
proof
  fix Sum256 :: "byte list \<Rightarrow> byte list"
  let ?c = "\<lparr>Domain_c = \<lparr>Blocks = [2]\<rparr>, Codomain = \<lparr>Blocks = [2]\<rparr>, Prim = PrimId,
             Data_c = None, Children = []\<rparr>"
  let ?s = "run_ops Sum256 NewStore [PutCircuit ?c, PutValue (IntV 42)]"
  have v: "values_s ?s (Sum256 [42]) = Some (IntV 42)"
    by (simp add: Store_Put_def Store_PutValue_def QGID_def Let_def)
  have "circuits ?s (QGID Sum256 (CircuitToValue ?c)) = Some ?c"
    by (simp add: Store_Put_def Store_PutValue_def Let_def)
  moreover have "CircuitToValue ?c = Tag (Text ''circuit'')
          (Seq [Tag (Text ''object'') (Seq [IntV 2]), Tag (Text ''object'') (Seq [IntV 2]),
                IntV 0, NilV, Seq []])"
    by (simp add: CircuitToValue_def ObjectToValue_def PrimId_def)
  ultimately have c: "circuits ?s (Sum256 (Encode (Tag (Text ''circuit'')
          (Seq [Tag (Text ''object'') (Seq [IntV 2]), Tag (Text ''object'') (Seq [IntV 2]),
                IntV 0, NilV, Seq []])))) = Some ?c"
    by (simp add: QGID_def)
  from store_content_addressed [of Sum256 "[PutCircuit ?c, PutValue (IntV 42)]" ?c] c v
  show "circuits ?s (Sum256 (Encode (Tag (Text ''circuit'')
          (Seq [Tag (Text ''object'') (Seq [IntV 2]), Tag (Text ''object'') (Seq [IntV 2]),
                IntV 0, NilV, Seq []])))) = Some ?c
        \<and> values_s ?s (Sum256 [42]) = Some (IntV 42)"
    by simp
qed

section \<open>The binary container\<close>

lemma unat_of_char: "unat (of_char c :: byte) = of_char c"
proof -
  have "(of_char c :: byte) = of_nat (of_char c)" by (simp add: of_nat_of_char)
  then have "unat (of_char c :: byte) = (of_char c :: nat) mod 256"
    by (simp add: unat_of_nat)
  also have "\<dots> = of_char c" by simp
  finally show ?thesis .
qed

lemma bytes_string_string_bytes: "bytes_string (string_bytes s) = s"
  by (induction s) (simp_all add: bytes_string_def string_bytes_def unat_of_char)

lemma unat_byte_of_nat: "unat (of_nat m :: byte) = take_bit 8 m"
  by (simp add: unsigned_of_nat)

lemma bytes_of_len32:
  fixes n :: nat
  assumes "n < 2 ^ 32"
  shows "push_bit 24 (take_bit 8 (drop_bit 24 n)) OR push_bit 16 (take_bit 8 (drop_bit 16 n))
           OR push_bit 8 (take_bit 8 (drop_bit 8 n)) OR take_bit 8 n = n"
proof -
  from assms have n: "take_bit 32 n = n" by (simp add: take_bit_nat_eq_self_iff)
  have hi: "\<not> bit n i" if "32 \<le> i" for i
  proof -
    have "bit n i = bit (take_bit 32 n) i" by (simp add: n)
    then show ?thesis using that by (simp add: bit_take_bit_iff)
  qed
  show ?thesis
  proof (rule bit_eqI)
    fix i :: nat
    consider "i < 8" | "8 \<le> i" "i < 16" | "16 \<le> i" "i < 24" | "24 \<le> i" "i < 32" | "32 \<le> i"
      by linarith
    then show "bit (push_bit 24 (take_bit 8 (drop_bit 24 n))
                 OR push_bit 16 (take_bit 8 (drop_bit 16 n))
                 OR push_bit 8 (take_bit 8 (drop_bit 8 n)) OR take_bit 8 n) i = bit n i"
    proof cases
      case 1 then show ?thesis by (simp add: bit_simps)
    next
      case 2 then show ?thesis by (auto simp: bit_simps)
    next
      case 3 then show ?thesis by (auto simp: bit_simps)
    next
      case 4 then show ?thesis by (auto simp: bit_simps)
    next
      case 5 then show ?thesis using hi [of i] by (auto simp: bit_simps)
    qed
  qed
qed

lemma get_len32_put_len32:
  assumes "n < 2 ^ 32"
  shows "get_len32 (pre @ put_len32 n @ post) (length pre) = n"
  using bytes_of_len32 [OF assms]
  by (simp add: get_len32_def put_len32_def nth_append unat_byte_of_nat)

lemma length_put_len32: "length (put_len32 n) = 4"
  by (simp add: put_len32_def)

lemma length_string_bytes: "length (string_bytes s) = length s"
  by (simp add: string_bytes_def)

lemma Decode_Encode_roundtrip:
  assumes magic: "Magic c = [0x51, 0x4D, 0x42, 0x01]"
    and entry: "length (Entrypoint c) = 32"
    and name: "length (Name c) < 2 ^ 32"
    and version: "length (Version c) < 2 ^ 32"
  shows "Decode (EmbeddedBinary_Encode c) = Inr c"
proof -
  define nb where "nb = string_bytes (Name c)"
  define vb where "vb = string_bytes (Version c)"
  define pre1 where "pre1 = Magic c @ Entrypoint c"
  define pre2 where "pre2 = pre1 @ put_len32 (length nb) @ nb"
  define data where "data = EmbeddedBinary_Encode c"
  have l1: "length pre1 = 36" by (simp add: pre1_def magic entry)
  have l2: "length pre2 = 40 + length nb" by (simp add: pre2_def l1 length_put_len32)
  have lnb: "length nb = length (Name c)" and lvb: "length vb = length (Version c)"
    by (simp_all add: nb_def vb_def length_string_bytes)
  have d1: "data = pre1 @ put_len32 (length nb) @ (nb @ put_len32 (length vb) @ vb @ StoreData c)"
    by (simp add: data_def EmbeddedBinary_Encode_def Let_def pre1_def nb_def vb_def)
  have d2: "data = pre2 @ put_len32 (length vb) @ (vb @ StoreData c)"
    by (simp add: d1 pre2_def)
  have len: "length data = 44 + length nb + length vb + length (StoreData c)"
    by (simp add: d2 l2 length_put_len32)
  have g1: "get_len32 data 36 = length nb"
    using get_len32_put_len32 [of "length nb" pre1] name by (simp add: d1 l1 lnb)
  have g2: "get_len32 data (40 + length nb) = length vb"
    using get_len32_put_len32 [of "length vb" pre2] version by (simp add: d2 l2 lvb)
  have m: "data ! 0 = 0x51" "data ! Suc 0 = 0x4D" "data ! 2 = 0x42" "data ! 3 = 0x01"
    by (simp_all add: d1 pre1_def magic)
  have t4: "take 4 data = Magic c" by (simp add: d1 pre1_def magic)
  have t32: "take 32 (drop 4 data) = Entrypoint c" by (simp add: d1 pre1_def magic entry)
  have tn: "take (length nb) (drop 40 data) = nb"
    by (simp add: d1 l1 length_put_len32)
  have tv: "take (length vb) (drop (44 + length nb) data) = vb"
    by (simp add: d2 l2 length_put_len32)
  have ts: "drop (44 + length nb + length vb) data = StoreData c"
    by (simp add: d2 l2 length_put_len32)
  have "Decode data = Inr \<lparr>Magic = Magic c, Entrypoint = Entrypoint c,
          Name = bytes_string nb, Version = bytes_string vb, StoreData = StoreData c\<rparr>"
    unfolding Decode_def Let_def
    by (simp add: len g1 g2 m t4 t32 tn tv ts)
  then show ?thesis
    by (simp add: data_def nb_def vb_def bytes_string_string_bytes)
qed

text \<open>
  Claim C6, as amended. \<open>Encode\<close> writes the magic field as it finds it and a length as 32
  bits, while \<open>Decode\<close> accepts only the magic \<open>QMB\x01\<close>. For a container with that magic
  whose name and version are shorter than \<open>2^32\<close> bytes (and whose entrypoint has its 32
  bytes), decoding the encoding succeeds and returns the container itself, field for field.
\<close>

theorem Decode_Encode:
  assumes magic: "Magic c = [0x51, 0x4D, 0x42, 0x01]"
    and entry: "length (Entrypoint c) = 32"
    and name: "length (Name c) < 2 ^ 32"
    and version: "length (Version c) < 2 ^ 32"
  shows "Decode (EmbeddedBinary_Encode c) = Inr c"
  using assms by (rule Decode_Encode_roundtrip)

text \<open>
  The container of the repository's own round-trip test: entrypoint \<open>0, 1, ..., 31\<close>, name
  \<open>test-binary\<close>, version \<open>1.0.0\<close>, payload \<open>test store data\<close>.
\<close>

theorem Decode_Encode_witness:
  "Decode (EmbeddedBinary_Encode
      \<lparr>Magic = [0x51, 0x4D, 0x42, 0x01], Entrypoint = map of_nat [0..<32],
       Name = ''test-binary'', Version = ''1.0.0'',
       StoreData = string_bytes ''test store data''\<rparr>)
   = Inr \<lparr>Magic = [0x51, 0x4D, 0x42, 0x01], Entrypoint = map of_nat [0..<32],
          Name = ''test-binary'', Version = ''1.0.0'',
          StoreData = string_bytes ''test store data''\<rparr>"
  by (rule Decode_Encode) simp_all

text \<open>
  The claim as stated fails for a container whose magic field is not \<open>QMB\x01\<close>: \<open>Encode\<close>
  copies the four bytes and \<open>Decode\<close> rejects them.
\<close>

theorem Decode_Encode_counterexample:
  "Decode (EmbeddedBinary_Encode
      \<lparr>Magic = [0, 0, 0, 0], Entrypoint = replicate 32 0, Name = ''n'', Version = ''v'',
       StoreData = []\<rparr>)
   = Inl (Errorf (''invalid magic: expected QMB'' @ [CHR 0x5C] @ ''x01'') [])"
  by (simp add: Decode_def EmbeddedBinary_Encode_def Let_def)

section \<open>Loading and running a binary\<close>

lemma importValues_circuits: "circuits (snd (importValues Sum256 st v)) = circuits st"
proof -
  have "circuits (foldl (\<lambda>s item. snd (Store_PutValue Sum256 s item)) s0 items) = circuits s0"
    for items s0
    by (induction items arbitrary: s0) (simp_all add: Store_PutValue_def Let_def)
  then show ?thesis
    by (cases v) (simp_all add: importValues_def Store_PutValue_def Let_def)
qed

lemma loadStoreData_circuits: "circuits (snd (loadStoreData Sum256 st data)) = circuits st"
  by (simp add: loadStoreData_def decodeValue_def importValues_circuits)

text \<open>
  Claim C1 fails on the code. The loader stores what it reads with \<open>PutValue\<close> only, so the
  map of circuits of a runner is empty whatever the payload holds, no entrypoint is ever
  resolvable, and \<open>Run\<close> returns the error \<open>entrypoint circuit not found\<close> without calling
  \<open>Execute\<close>. This holds for every binary, hence for one whose payload is the canonical
  encoding of its entrypoint circuit.
\<close>

theorem NewRunner_entrypoint_unresolvable:
  "NewRunner Sum256 data = Inr r \<Longrightarrow>
     circuits (store_r r) = Map.empty
     \<and> Runner_Run n r input h
         = Some (Inr (errorf ''entrypoint circuit not found'', \<lparr>store = store_r r, mem = h\<rparr>))"
proof -
  assume a: "NewRunner Sum256 data = Inr r"
  then obtain b where b: "Decode data = Inr b"
    by (auto simp: NewRunner_def split: sum.splits)
  with a have "store_r r = snd (loadStoreData Sum256 NewStore (StoreData b))"
    by (auto simp: NewRunner_def split: prod.splits option.splits)
  then have "circuits (store_r r) = Map.empty"
    by (simp add: loadStoreData_circuits NewStore_def)
  then show ?thesis
    by (simp add: Runner_Run_def Store_Get_def returns_def and_then_def get_circuit_def)
qed


theorem NewRunner_entrypoint_unresolvable_witness:
  "\<forall>Sum256.
     NewRunner Sum256 (EmbeddedBinary_Encode
        \<lparr>Magic = [0x51, 0x4D, 0x42, 0x01], Entrypoint = map of_nat [0..<32],
         Name = ''id'', Version = ''1.0.0'',
         StoreData = Encode (CircuitToValue
           \<lparr>Domain_c = \<lparr>Blocks = [2]\<rparr>, Codomain = \<lparr>Blocks = [2]\<rparr>, Prim = PrimId,
            Data_c = None, Children = []\<rparr>)\<rparr>)
       = Inr \<lparr>binary =
               \<lparr>Magic = [0x51, 0x4D, 0x42, 0x01], Entrypoint = map of_nat [0..<32],
                Name = ''id'', Version = ''1.0.0'',
                StoreData = Encode (CircuitToValue
                  \<lparr>Domain_c = \<lparr>Blocks = [2]\<rparr>, Codomain = \<lparr>Blocks = [2]\<rparr>, Prim = PrimId,
                   Data_c = None, Children = []\<rparr>)\<rparr>,
              store_r = snd (Store_PutValue Sum256 NewStore (Bytes (Encode (CircuitToValue
                  \<lparr>Domain_c = \<lparr>Blocks = [2]\<rparr>, Codomain = \<lparr>Blocks = [2]\<rparr>, Prim = PrimId,
                   Data_c = None, Children = []\<rparr>))))\<rparr>
     \<and> Runner_Run 1
          \<lparr>binary =
               \<lparr>Magic = [0x51, 0x4D, 0x42, 0x01], Entrypoint = map of_nat [0..<32],
                Name = ''id'', Version = ''1.0.0'',
                StoreData = Encode (CircuitToValue
                  \<lparr>Domain_c = \<lparr>Blocks = [2]\<rparr>, Codomain = \<lparr>Blocks = [2]\<rparr>, Prim = PrimId,
                   Data_c = None, Children = []\<rparr>)\<rparr>,
              store_r = snd (Store_PutValue Sum256 NewStore (Bytes (Encode (CircuitToValue
                  \<lparr>Domain_c = \<lparr>Blocks = [2]\<rparr>, Codomain = \<lparr>Blocks = [2]\<rparr>, Prim = PrimId,
                   Data_c = None, Children = []\<rparr>))))\<rparr>
          (Some 0) [\<lparr>Rows = 1, Cols = 1, Data = [QIOne]\<rparr>]
        = Some (Inr (errorf ''entrypoint circuit not found'',
            \<lparr>store = snd (Store_PutValue Sum256 NewStore (Bytes (Encode (CircuitToValue
                  \<lparr>Domain_c = \<lparr>Blocks = [2]\<rparr>, Codomain = \<lparr>Blocks = [2]\<rparr>, Prim = PrimId,
                   Data_c = None, Children = []\<rparr>)))),
             mem = [\<lparr>Rows = 1, Cols = 1, Data = [QIOne]\<rparr>]\<rparr>))"
proof
  fix Sum256 :: "byte list \<Rightarrow> byte list"
  define P where "P = Encode (CircuitToValue
           \<lparr>Domain_c = \<lparr>Blocks = [2]\<rparr>, Codomain = \<lparr>Blocks = [2]\<rparr>, Prim = PrimId,
            Data_c = None, Children = []\<rparr>)"
  define B where "B = \<lparr>Magic = [0x51, 0x4D, 0x42, 0x01], Entrypoint = map of_nat [0..<32],
         Name = ''id'', Version = ''1.0.0'', StoreData = P\<rparr>"
  define R where "R = \<lparr>binary = B, store_r = snd (Store_PutValue Sum256 NewStore (Bytes P))\<rparr>"
  have P: "P = 0xD0 # tl P"
    by (simp add: P_def CircuitToValue_def)
  have d: "Decode (EmbeddedBinary_Encode B) = Inr B"
    by (rule Decode_Encode_roundtrip) (simp_all add: B_def)
  have l: "loadStoreData Sum256 NewStore P
             = (None, snd (Store_PutValue Sum256 NewStore (Bytes P)))"
    by (subst (1 2) P) (simp add: loadStoreData_def decodeValue_def importValues_def)
  have nr: "NewRunner Sum256 (EmbeddedBinary_Encode B) = Inr R"
  proof -
    have sd: "StoreData B = P" by (simp add: B_def)
    show ?thesis by (simp add: NewRunner_def d sd l R_def)
  qed
  from NewRunner_entrypoint_unresolvable [OF nr, of 1 "Some 0" "[\<lparr>Rows = 1, Cols = 1, Data = [QIOne]\<rparr>]"] nr
  show "NewRunner Sum256 (EmbeddedBinary_Encode
        \<lparr>Magic = [0x51, 0x4D, 0x42, 0x01], Entrypoint = map of_nat [0..<32],
         Name = ''id'', Version = ''1.0.0'',
         StoreData = Encode (CircuitToValue
           \<lparr>Domain_c = \<lparr>Blocks = [2]\<rparr>, Codomain = \<lparr>Blocks = [2]\<rparr>, Prim = PrimId,
            Data_c = None, Children = []\<rparr>)\<rparr>)
       = Inr \<lparr>binary =
               \<lparr>Magic = [0x51, 0x4D, 0x42, 0x01], Entrypoint = map of_nat [0..<32],
                Name = ''id'', Version = ''1.0.0'',
                StoreData = Encode (CircuitToValue
                  \<lparr>Domain_c = \<lparr>Blocks = [2]\<rparr>, Codomain = \<lparr>Blocks = [2]\<rparr>, Prim = PrimId,
                   Data_c = None, Children = []\<rparr>)\<rparr>,
              store_r = snd (Store_PutValue Sum256 NewStore (Bytes (Encode (CircuitToValue
                  \<lparr>Domain_c = \<lparr>Blocks = [2]\<rparr>, Codomain = \<lparr>Blocks = [2]\<rparr>, Prim = PrimId,
                   Data_c = None, Children = []\<rparr>))))\<rparr>
     \<and> Runner_Run 1
          \<lparr>binary =
               \<lparr>Magic = [0x51, 0x4D, 0x42, 0x01], Entrypoint = map of_nat [0..<32],
                Name = ''id'', Version = ''1.0.0'',
                StoreData = Encode (CircuitToValue
                  \<lparr>Domain_c = \<lparr>Blocks = [2]\<rparr>, Codomain = \<lparr>Blocks = [2]\<rparr>, Prim = PrimId,
                   Data_c = None, Children = []\<rparr>)\<rparr>,
              store_r = snd (Store_PutValue Sum256 NewStore (Bytes (Encode (CircuitToValue
                  \<lparr>Domain_c = \<lparr>Blocks = [2]\<rparr>, Codomain = \<lparr>Blocks = [2]\<rparr>, Prim = PrimId,
                   Data_c = None, Children = []\<rparr>))))\<rparr>
          (Some 0) [\<lparr>Rows = 1, Cols = 1, Data = [QIOne]\<rparr>]
        = Some (Inr (errorf ''entrypoint circuit not found'',
            \<lparr>store = snd (Store_PutValue Sum256 NewStore (Bytes (Encode (CircuitToValue
                  \<lparr>Domain_c = \<lparr>Blocks = [2]\<rparr>, Codomain = \<lparr>Blocks = [2]\<rparr>, Prim = PrimId,
                   Data_c = None, Children = []\<rparr>)))),
             mem = [\<lparr>Rows = 1, Cols = 1, Data = [QIOne]\<rparr>]\<rparr>))"
    by (simp add: R_def B_def P_def)
qed

section \<open>Executing circuits\<close>

lemma upt_4: "[0..<4] = [0, 1, 2, 3]"
  by (simp add: upt_rec)

lemma wrap64_id: "- (2 ^ 63) \<le> x \<Longrightarrow> x < 2 ^ 63 \<Longrightarrow> wrap64 x = x"
  unfolding wrap64_def by (simp add: signed_take_bit_int_eq_self)

lemmas comp_defs = bind_def ret_def panics_def deref_def load_Data_def store_Data_def NewMatrix_def
  Matrix_Get_def Matrix_Set_def

lemmas prim_defs = PrimId_def PrimCompose_def PrimTensor_def PrimSwap_def PrimDiscard_def PrimZero_def
  PrimUnitary_def PrimChoi_def PrimPrepare_def PrimAdd_def PrimScale_def

lemma Execute_2: "Execute 2 c i = Execute (Suc (Suc 0)) c i"
  by (simp add: numeral_2_eq_2)

text \<open>
  Claim C3 fails on the code. \<open>MatMul\<close> and \<open>MatAdd\<close> answer a shape mismatch with a nil
  pointer and \<open>Execute\<close> never looks at it. For a \<open>Swap\<close> circuit on \<open>Q(2)\<close> (dimension 4)
  and the 1 by 1 identity as input, which is the input the command line gives every
  binary, \<open>applySwap\<close> multiplies its 4 by 4 matrix with the input, gets nil, and hands nil
  to the outer \<open>MatMul\<close>, which dereferences it: the call panics. For an \<open>Add\<close> circuit
  whose children are \<open>Id\<close> and \<open>Zero\<close> into \<open>Q(2)\<close>, the two results have shapes 1 by 1 and
  4 by 4, \<open>MatAdd\<close> returns nil, and \<open>Execute\<close> returns the nil matrix with a nil error.
  (The two keys of the store stand for the QGIDs of the children.)
\<close>

theorem Execute_shape_mismatch:
  "Execute 1 \<lparr>Domain_c = \<lparr>Blocks = [2]\<rparr>, Codomain = \<lparr>Blocks = [2]\<rparr>, Prim = PrimSwap,
              Data_c = None, Children = []\<rparr>
      (Some 0) \<lparr>store = NewStore, mem = [\<lparr>Rows = 1, Cols = 1, Data = [QIOne]\<rparr>]\<rparr>
     = Some (Inl NilDereference)
   \<and> Execute 2 \<lparr>Domain_c = \<lparr>Blocks = []\<rparr>, Codomain = \<lparr>Blocks = [2]\<rparr>, Prim = PrimAdd,
              Data_c = None, Children = [replicate 32 1, replicate 32 2]\<rparr>
      (Some 0)
      \<lparr>store = \<lparr>circuits = [replicate 32 1 \<mapsto> \<lparr>Domain_c = \<lparr>Blocks = []\<rparr>, Codomain = \<lparr>Blocks = []\<rparr>,
                                   Prim = PrimId, Data_c = None, Children = []\<rparr>,
                                replicate 32 2 \<mapsto> \<lparr>Domain_c = \<lparr>Blocks = []\<rparr>, Codomain = \<lparr>Blocks = [2]\<rparr>,
                                   Prim = PrimZero, Data_c = None, Children = []\<rparr>],
                values_s = Map.empty\<rparr>,
        mem = [\<lparr>Rows = 1, Cols = 1, Data = [QIOne]\<rparr>]\<rparr>
     = Some (Inr ((None, None),
         \<lparr>store = \<lparr>circuits = [replicate 32 1 \<mapsto> \<lparr>Domain_c = \<lparr>Blocks = []\<rparr>, Codomain = \<lparr>Blocks = []\<rparr>,
                                   Prim = PrimId, Data_c = None, Children = []\<rparr>,
                                replicate 32 2 \<mapsto> \<lparr>Domain_c = \<lparr>Blocks = []\<rparr>, Codomain = \<lparr>Blocks = [2]\<rparr>,
                                   Prim = PrimZero, Data_c = None, Children = []\<rparr>],
                values_s = Map.empty\<rparr>,
          mem = [\<lparr>Rows = 1, Cols = 1, Data = [QIOne]\<rparr>,
                 \<lparr>Rows = 1, Cols = 1, Data = [QIOne]\<rparr>,
                 \<lparr>Rows = 4, Cols = 4, Data = replicate 16 QIZero\<rparr>]\<rparr>))"
proof
  show "Execute 1 \<lparr>Domain_c = \<lparr>Blocks = [2]\<rparr>, Codomain = \<lparr>Blocks = [2]\<rparr>, Prim = PrimSwap,
              Data_c = None, Children = []\<rparr>
      (Some 0) \<lparr>store = NewStore, mem = [\<lparr>Rows = 1, Cols = 1, Data = [QIOne]\<rparr>]\<rparr>
     = Some (Inl NilDereference)"
    by (simp add: prim_defs lift_def applySwap_def objectDim_def comp_defs upt_4
        MatMul_def Dagger_def Let_def wrap64_id)
next
  show "Execute 2 \<lparr>Domain_c = \<lparr>Blocks = []\<rparr>, Codomain = \<lparr>Blocks = [2]\<rparr>, Prim = PrimAdd,
              Data_c = None, Children = [replicate 32 1, replicate 32 2]\<rparr>
      (Some 0)
      \<lparr>store = \<lparr>circuits = [replicate 32 1 \<mapsto> \<lparr>Domain_c = \<lparr>Blocks = []\<rparr>, Codomain = \<lparr>Blocks = []\<rparr>,
                                   Prim = PrimId, Data_c = None, Children = []\<rparr>,
                                replicate 32 2 \<mapsto> \<lparr>Domain_c = \<lparr>Blocks = []\<rparr>, Codomain = \<lparr>Blocks = [2]\<rparr>,
                                   Prim = PrimZero, Data_c = None, Children = []\<rparr>],
                values_s = Map.empty\<rparr>,
        mem = [\<lparr>Rows = 1, Cols = 1, Data = [QIOne]\<rparr>]\<rparr>
     = Some (Inr ((None, None),
         \<lparr>store = \<lparr>circuits = [replicate 32 1 \<mapsto> \<lparr>Domain_c = \<lparr>Blocks = []\<rparr>, Codomain = \<lparr>Blocks = []\<rparr>,
                                   Prim = PrimId, Data_c = None, Children = []\<rparr>,
                                replicate 32 2 \<mapsto> \<lparr>Domain_c = \<lparr>Blocks = []\<rparr>, Codomain = \<lparr>Blocks = [2]\<rparr>,
                                   Prim = PrimZero, Data_c = None, Children = []\<rparr>],
                values_s = Map.empty\<rparr>,
          mem = [\<lparr>Rows = 1, Cols = 1, Data = [QIOne]\<rparr>,
                 \<lparr>Rows = 1, Cols = 1, Data = [QIOne]\<rparr>,
                 \<lparr>Rows = 4, Cols = 4, Data = replicate 16 QIZero\<rparr>]\<rparr>))"
    by (simp add: Execute_2 prim_defs lift_def and_then_def returns_def Store_Get_def get_circuit_def objectDim_def comp_defs
        Matrix_Clone_def MatAdd_def Let_def wrap64_id NewQI_def QIOne_def)
qed


end
